theory Spec2Isabelle
  imports Complex_Main
begin

section \<open>Python values\<close>

text \<open>
  The documents handled by \<^verbatim>\<open>chaoslib/activity.py\<close> are free-form JSON/YAML mappings.
  A dict is an association list with string keys (first binding wins, as a dict holds
  one value per key); a finite float is the rational it denotes.
\<close>

datatype pyval =
    PNone
  | PBool bool
  | PInt int
  | PFloat rat
  | PStr string
  | PList "pyval list"
  | PDict "(string \<times> pyval) list"

type_synonym pydict = "(string \<times> pyval) list"

text \<open>\<^verbatim>\<open>d.get(k)\<close>, \<^verbatim>\<open>d.get(k, default)\<close> and \<^verbatim>\<open>k in d\<close>.\<close>

definition dict_get :: "pydict \<Rightarrow> string \<Rightarrow> pyval" where
  "dict_get d k = (case map_of d k of None \<Rightarrow> PNone | Some v \<Rightarrow> v)"

definition dict_get_default :: "pydict \<Rightarrow> string \<Rightarrow> pyval \<Rightarrow> pyval" where
  "dict_get_default d k dflt = (case map_of d k of None \<Rightarrow> dflt | Some v \<Rightarrow> v)"

definition dict_has :: "pydict \<Rightarrow> string \<Rightarrow> bool" where
  "dict_has d k = (map_of d k \<noteq> None)"

text \<open>Truth value testing, as \<^verbatim>\<open>if x:\<close> and \<^verbatim>\<open>not x\<close> do it.\<close>

fun truthy :: "pyval \<Rightarrow> bool" where
  "truthy PNone = False"
| "truthy (PBool b) = b"
| "truthy (PInt i) = (i \<noteq> 0)"
| "truthy (PFloat f) = (f \<noteq> 0)"
| "truthy (PStr s) = (s \<noteq> [])"
| "truthy (PList xs) = (xs \<noteq> [])"
| "truthy (PDict kvs) = (kvs \<noteq> [])"

text \<open>\<^verbatim>\<open>isinstance(x, str)\<close>, \<^verbatim>\<open>isinstance(x, bool)\<close> and
  \<^verbatim>\<open>isinstance(x, numbers.Number)\<close> (\<^verbatim>\<open>bool\<close> is a subclass of \<^verbatim>\<open>int\<close>).\<close>

fun is_str :: "pyval \<Rightarrow> bool" where
  "is_str (PStr s) = True"
| "is_str v = False"

fun is_bool :: "pyval \<Rightarrow> bool" where
  "is_bool (PBool b) = True"
| "is_bool v = False"

fun is_number :: "pyval \<Rightarrow> bool" where
  "is_number (PBool b) = True"
| "is_number (PInt i) = True"
| "is_number (PFloat f) = True"
| "is_number v = False"

section \<open>Exceptions\<close>

text \<open>
  A message is either a literal or a \<^verbatim>\<open>str.format\<close> template together with the value
  substituted into it.
\<close>

datatype message = Msg string | Fmt string pyval

text \<open>The two templates of \<^verbatim>\<open>ensure_activity_is_valid\<close>: they begin or end with a quote
  character, written here as \<open>CHR 0x27\<close>.\<close>

definition unsupported_type_template :: string where
  "unsupported_type_template = CHR 0x27 # ''{t}' is not a supported activity type''"

definition unknown_provider_template :: string where
  "unknown_provider_template = ''unknown provider type '{type}'' @ [CHR 0x27]"

definition missing_ref_template :: string where
  "missing_ref_template = ''could not find referenced activity '{r}'' @ [CHR 0x27]"

datatype exn =
    InvalidActivity message
  | InvalidExperiment message
  | ActivityFailed message
  | InterruptExecution
  | KeyboardInterrupt
  | SystemExit
  | AttributeError
  | TypeError
  | KeyError
  | ValueError
  | UnboundLocalError
  | OtherException string

section \<open>Providers\<close>

text \<open>
  The provider modules (\<^verbatim>\<open>chaoslib.provider.python\<close>, \<^verbatim>\<open>.process\<close>, \<^verbatim>\<open>.http\<close>) are
  imported by \<^verbatim>\<open>activity.py\<close> and kept as parameters. A validator returns or raises. A
  runner takes the activity, the configuration and the secrets; it reports the seconds
  it took and either its result or the exception it raised.
\<close>

record providers =
  validate_python_activity :: "pydict \<Rightarrow> exn + unit"
  validate_process_activity :: "pydict \<Rightarrow> exn + unit"
  validate_http_activity :: "pydict \<Rightarrow> exn + unit"
  run_python_activity :: "pydict \<Rightarrow> pyval \<Rightarrow> pyval \<Rightarrow> rat \<times> (exn + pyval)"
  run_process_activity :: "pydict \<Rightarrow> pyval \<Rightarrow> pyval \<Rightarrow> rat \<times> (exn + pyval)"
  run_http_activity :: "pydict \<Rightarrow> pyval \<Rightarrow> pyval \<Rightarrow> rat \<times> (exn + pyval)"

section \<open>Validation of one activity\<close>

text \<open>
  \<^verbatim>\<open>ensure_activity_is_valid\<close> (activity.py, lines 26-99). \<open>Inl\<close> is the exception raised,
  \<open>Inr ()\<close> the normal return. Calling \<^verbatim>\<open>.get\<close> on a value that is not a dict raises
  \<^verbatim>\<open>AttributeError\<close>.
\<close>

definition check_pauses :: "pyval \<Rightarrow> exn + unit" where
  \<comment> \<open>lines 81-88, on \<^verbatim>\<open>pauses = activity.get("pauses")\<close>\<close>
  "check_pauses pauses =
    (if pauses \<noteq> PNone then
       (case pauses of
          PDict ps \<Rightarrow>
            let before = dict_get ps ''before'' in
            if before \<noteq> PNone \<and> \<not> is_number before then
              Inl (InvalidActivity (Msg ''activity before pause must be a number''))
            else
              let after = dict_get ps ''after'' in
              if after \<noteq> PNone \<and> \<not> is_number after then
                Inl (InvalidActivity (Msg ''activity after pause must be a number''))
              else Inr ()
        | _ \<Rightarrow> Inl AttributeError)
     else Inr ())"

definition ensure_activity_is_valid :: "providers \<Rightarrow> pydict \<Rightarrow> exn + unit" where
  "ensure_activity_is_valid P activity =
    (if activity = [] then
       Inl (InvalidActivity (Msg ''empty activity is no activity''))
     else
       let ref = dict_get activity ''ref'' in
       if ref \<noteq> PNone then
         (if \<not> is_str ref \<or> ref = PStr [] then
            Inl (InvalidActivity (Msg ''reference to activity must be non-empty strings''))
          else Inr ())
       else
         let activity_type = dict_get activity ''type'' in
         if \<not> truthy activity_type then
           Inl (InvalidActivity (Msg ''an activity must have a type''))
         else if activity_type \<noteq> PStr ''probe'' \<and> activity_type \<noteq> PStr ''action'' then
           Inl (InvalidActivity (Fmt unsupported_type_template activity_type))
         else if \<not> truthy (dict_get activity ''name'') then
           Inl (InvalidActivity (Msg ''an activity must have a name''))
         else
           let provider = dict_get activity ''provider'' in
           if \<not> truthy provider then
             Inl (InvalidActivity (Msg ''an activity requires a provider''))
           else
             (case provider of
                PDict pd \<Rightarrow>
                  let provider_type = dict_get pd ''type'' in
                  if \<not> truthy provider_type then
                    Inl (InvalidActivity (Msg ''a provider must have a type''))
                  else if provider_type \<noteq> PStr ''python'' \<and> provider_type \<noteq> PStr ''process''
                          \<and> provider_type \<noteq> PStr ''http'' then
                    Inl (InvalidActivity (Fmt unknown_provider_template provider_type))
                  else if \<not> truthy (dict_get activity ''name'') then
                    Inl (InvalidActivity (Msg ''activity must have a name (cannot be empty)''))
                  else
                    let timeout = dict_get activity ''timeout'' in
                    if timeout \<noteq> PNone \<and> \<not> is_number timeout then
                      Inl (InvalidActivity (Msg ''activity timeout must be a number''))
                    else
                      (case check_pauses (dict_get activity ''pauses'') of
                         Inl e \<Rightarrow> Inl e
                       | Inr u \<Rightarrow>
                           if dict_has activity ''background''
                              \<and> \<not> is_bool (dict_get activity ''background'') then
                             Inl (InvalidActivity
                                   (Msg ''activity background must be a boolean''))
                           else if provider_type = PStr ''python'' then
                             validate_python_activity P activity
                           else if provider_type = PStr ''process'' then
                             validate_process_activity P activity
                           else if provider_type = PStr ''http'' then
                             validate_http_activity P activity
                           else Inr ())
              | _ \<Rightarrow> Inl AttributeError))"

section \<open>Runs, journals and the world\<close>

text \<open>
  A \<^verbatim>\<open>Run\<close> is the dict built by \<^verbatim>\<open>execute_activity\<close>; a key that has not been set yet
  is \<open>None\<close>. \<open>r_start\<close> and \<open>r_end\<close> hold the instants whose \<^verbatim>\<open>isoformat()\<close> the code
  stores, \<open>r_exception\<close> the exception whose \<^verbatim>\<open>traceback.format_exception\<close> lines it
  stores.
\<close>

record run =
  r_activity :: pydict
  r_output :: pyval
  r_status :: "string option"
  r_exception :: "exn option"
  r_start :: "rat option"
  r_end :: "rat option"
  r_duration :: "rat option"

text \<open>What \<^verbatim>\<open>run_activities\<close> yields: a completed run, or the future of a call of
  \<^verbatim>\<open>execute_activity\<close> submitted to the pool (kept as the activity it was submitted with).\<close>

datatype item = Completed run | Pending pydict

record verdict =
  tolerance_met :: bool
  probes :: "(run \<times> bool) list"

record journal =
  j_status :: string
  j_deviated :: bool
  j_before :: "verdict option"
  j_after :: "verdict option"
  j_run :: "run list"
  j_rollbacks :: "run list"
  j_start :: rat
  j_end :: rat
  j_duration :: rat
  j_experiment :: pydict

datatype level =
  LoaderLevel | ExperimentLevel | HypothesisLevel | MethodLevel | RollbackLevel | ActivityLevel

datatype phase = Before | After

text \<open>The state a control scope hands to its after-hooks.\<close>

datatype cstate =
    RunState run
  | RunsState "run list"
  | VerdictState "verdict option"
  | JournalState journal

datatype hook_outcome = HookReturns | HookInterrupts | HookFails

text \<open>Where an effective control comes from: the document, or the registry of global
  controls.\<close>

datatype origin = FromDocument | FromRegistry

text \<open>
  Everything that happens outside the interpreter is an event of the trace: a control
  hook called (with the origin of the control, the control, the level and the side), a call of \<^verbatim>\<open>time.sleep\<close> with
  its seconds, a provider runner invoked on an activity, a call submitted to the pool.
\<close>

datatype event =
    HookCalled origin pydict level phase
  | Slept rat
  | Invoked pydict
  | Submitted pydict

text \<open>
  The world: a clock in seconds that only \<^verbatim>\<open>time.sleep\<close> and the provider runners
  advance, the trace, the OS signal still to arrive (with its instant; an interrupt
  raises \<^verbatim>\<open>KeyboardInterrupt\<close>, a termination \<^verbatim>\<open>SystemExit\<close>, as the handlers of
  \<^verbatim>\<open>test_no_rollback_even_on_SIGINT\<close> and \<^verbatim>\<open>test_no_rollback_even_on_SystemExit\<close> do), the
  process-wide list of global controls and whether it has been initialised.
\<close>

datatype os_signal = SigInt | SigTerm

fun handler_raises :: "os_signal \<Rightarrow> exn" where
  "handler_raises SigInt = KeyboardInterrupt"
| "handler_raises SigTerm = SystemExit"

record world =
  clock :: rat
  trace :: "event list"
  signal :: "(rat \<times> os_signal) option"
  global_controls :: "pydict list"
  initialized :: bool

text \<open>
  The environment extends the providers with what else is called and left open by the
  sources of this repository: the hook of a control at a level and side (given the
  context and the state), \<^verbatim>\<open>get_context_controls\<close> (the controls a document gives a context
  at a level), whether \<^verbatim>\<open>configure_control\<close> of a global control succeeds, the tolerance
  check of a probe's output, what awaiting a future gives (nothing when the call crashed
  in the pool), and the environment variables.
\<close>

record env = providers +
  hook :: "pydict \<Rightarrow> level \<Rightarrow> phase \<Rightarrow> pydict \<Rightarrow> cstate option \<Rightarrow> hook_outcome"
  get_context_controls :: "level \<Rightarrow> pydict \<Rightarrow> pydict \<Rightarrow> pydict list"
  configure_control :: "pydict \<Rightarrow> bool"
  within_tolerance :: "pyval \<Rightarrow> pyval \<Rightarrow> bool"
  await_future :: "pydict \<Rightarrow> run option"
  getenv :: "string \<Rightarrow> string option"

section \<open>Sleeping\<close>

text \<open>
  \<^verbatim>\<open>time.sleep(secs)\<close>: a \<^verbatim>\<open>TypeError\<close> unless \<open>secs\<close> is a number, a \<^verbatim>\<open>ValueError\<close> when
  it is negative. A signal that arrives before the sleep is over ends it with the
  handler's exception.
\<close>

fun seconds_of :: "pyval \<Rightarrow> rat option" where
  "seconds_of (PBool b) = Some (if b then 1 else 0)"
| "seconds_of (PInt i) = Some (of_int i)"
| "seconds_of (PFloat f) = Some f"
| "seconds_of v = None"

definition py_sleep :: "pyval \<Rightarrow> world \<Rightarrow> (exn + unit) \<times> world" where
  "py_sleep secs w =
    (case seconds_of secs of
       None \<Rightarrow> (Inl TypeError, w)
     | Some d \<Rightarrow>
         if d < 0 then (Inl ValueError, w)
         else
           let w1 = w\<lparr>trace := trace w @ [Slept d]\<rparr> in
           (case signal w of
              None \<Rightarrow> (Inr (), w1\<lparr>clock := clock w + d\<rparr>)
            | Some (t, e) \<Rightarrow>
                if t < clock w + d then
                  (Inl (handler_raises e), w1\<lparr>clock := max (clock w) t, signal := None\<rparr>)
                else (Inr (), w1\<lparr>clock := clock w + d\<rparr>)))"

text \<open>
  A configured pause (lines 145-151 and 192-198 of \<^verbatim>\<open>execute_activity\<close>): a truthy pause
  is logged, and slept only when not in dry mode.
\<close>

definition pause :: "pyval \<Rightarrow> bool \<Rightarrow> world \<Rightarrow> (exn + unit) \<times> world" where
  "pause secs dry w =
    (if truthy secs then
       (if \<not> dry then py_sleep secs w else (Inr (), w))
     else (Inr (), w))"

section \<open>Control scopes\<close>

text \<open>
  Modelled from the spec: \<^verbatim>\<open>chaoslib.control\<close> (the \<^verbatim>\<open>controls\<close> context manager and its
  dispatcher) is not among the sources. Section 4.5: the effective controls of a scope
  are those the document gives the context (\<^verbatim>\<open>get_context_controls\<close>, a parameter: no
  property below depends on it), followed by the globally loaded ones; a
  control with a \<^verbatim>\<open>scope\<close> of \<^verbatim>\<open>before\<close> or \<^verbatim>\<open>after\<close> is called on that side only. Opening
  the scope calls the before-hook of each effective control, closing it calls the
  after-hook with the state. \<^verbatim>\<open>InterruptExecution\<close> from a hook propagates; any other
  failure of a hook is logged and swallowed. A scope is closed also when its body
  raises (then no state was handed over). Hooks take no time on the clock, and what
  they write into the documents is not followed.
\<close>

definition effective_controls ::
  "env \<Rightarrow> level \<Rightarrow> pydict \<Rightarrow> pydict \<Rightarrow> world \<Rightarrow> (origin \<times> pydict) list" where
  "effective_controls E lvl experiment context w =
     map (Pair FromDocument) (get_context_controls E lvl experiment context)
       @ map (Pair FromRegistry) (global_controls w)"

definition on_side :: "pydict \<Rightarrow> phase \<Rightarrow> bool" where
  "on_side control ph =
    (let scope = dict_get control ''scope'' in
     scope = PNone \<or> scope = PStr (case ph of Before \<Rightarrow> ''before'' | After \<Rightarrow> ''after''))"

fun apply_controls ::
  "env \<Rightarrow> (origin \<times> pydict) list \<Rightarrow> level \<Rightarrow> phase \<Rightarrow> pydict \<Rightarrow> cstate option \<Rightarrow> world
     \<Rightarrow> (exn + unit) \<times> world" where
  "apply_controls E [] lvl ph context st w = (Inr (), w)"
| "apply_controls E ((org, c) # cs) lvl ph context st w =
    (if on_side c ph then
       (let w1 = w\<lparr>trace := trace w @ [HookCalled org c lvl ph]\<rparr> in
        case hook E c lvl ph context st of
          HookInterrupts \<Rightarrow> (Inl InterruptExecution, w1)
        | HookReturns \<Rightarrow> apply_controls E cs lvl ph context st w1
        | HookFails \<Rightarrow> apply_controls E cs lvl ph context st w1)
     else apply_controls E cs lvl ph context st w)"

definition controls ::
  "env \<Rightarrow> level \<Rightarrow> pydict \<Rightarrow> pydict \<Rightarrow> ('a \<Rightarrow> cstate) \<Rightarrow> (world \<Rightarrow> (exn + 'a) \<times> world)
     \<Rightarrow> world \<Rightarrow> (exn + 'a) \<times> world" where
  "controls E lvl experiment context as_state body w =
    (case apply_controls E (effective_controls E lvl experiment context w)
            lvl Before context None w of
       (Inl e, w1) \<Rightarrow> (Inl e, w1)
     | (Inr u, w1) \<Rightarrow>
         (case body w1 of
            (Inr result, w2) \<Rightarrow>
              (case apply_controls E (effective_controls E lvl experiment context w2)
                      lvl After context (Some (as_state result)) w2 of
                 (Inl e, w3) \<Rightarrow> (Inl e, w3)
               | (Inr u, w3) \<Rightarrow> (Inr result, w3))
          | (Inl x, w2) \<Rightarrow>
              (case apply_controls E (effective_controls E lvl experiment context w2)
                      lvl After context None w2 of
                 (Inl e, w3) \<Rightarrow> (Inl e, w3)
               | (Inr u, w3) \<Rightarrow> (Inl x, w3))))"

section \<open>The activities of a document and the resolution of references\<close>

text \<open>
  What a \<^verbatim>\<open>for\<close> loop or \<^verbatim>\<open>list.extend\<close> iterates over: the elements of a list, the keys
  of a dict, the characters of a string; anything else raises \<^verbatim>\<open>TypeError\<close>.
\<close>

fun py_iter :: "pyval \<Rightarrow> exn + pyval list" where
  "py_iter (PList xs) = Inr xs"
| "py_iter (PDict kvs) = Inr (map (\<lambda>kv. PStr (fst kv)) kvs)"
| "py_iter (PStr s) = Inr (map (\<lambda>c. PStr [c]) s)"
| "py_iter v = Inl TypeError"

text \<open>\<^verbatim>\<open>get_all_activities_in_experiment\<close> (activity.py, lines 236-252).\<close>

definition get_all_activities_in_experiment :: "pydict \<Rightarrow> exn + pyval list" where
  "get_all_activities_in_experiment experiment =
    (let hypo = dict_get experiment ''steady-state-hypothesis'' in
     case (if truthy hypo then
             (case hypo of
                PDict h \<Rightarrow> py_iter (dict_get_default h ''probes'' (PList []))
              | _ \<Rightarrow> Inl AttributeError)
           else Inr []) of
       Inl e \<Rightarrow> Inl e
     | Inr activities \<Rightarrow>
         (case py_iter (dict_get_default experiment ''method'' (PList [])) of
            Inl e \<Rightarrow> Inl e
          | Inr method \<Rightarrow>
              (case py_iter (dict_get_default experiment ''rollbacks'' (PList [])) of
                 Inl e \<Rightarrow> Inl e
               | Inr rollbacks \<Rightarrow> Inr (activities @ method @ rollbacks))))"

text \<open>
  Modelled from the spec: \<^verbatim>\<open>chaoslib.caching.lookup_activity\<close> is not among the sources.
  Sections 3 and 4.3: a reference resolves, through an index of the document, to the
  activity of that document whose \<^verbatim>\<open>name\<close> it is; \<open>None\<close> when there is none.
\<close>

fun named_activity :: "pyval \<Rightarrow> pyval \<Rightarrow> bool" where
  "named_activity ref (PDict a) = (map_of a ''name'' = Some ref)"
| "named_activity ref v = False"

definition lookup_activity :: "pydict \<Rightarrow> pyval \<Rightarrow> pyval" where
  "lookup_activity experiment ref =
    (case get_all_activities_in_experiment experiment of
       Inl e \<Rightarrow> PNone
     | Inr activities \<Rightarrow>
         (case find (named_activity ref) activities of
            None \<Rightarrow> PNone
          | Some a \<Rightarrow> a))"

section \<open>Executing one activity\<close>

text \<open>
  A provider runner called: the trace records the call, the clock advances by the
  seconds the runner took. A signal that arrives meanwhile does not end the call
  (section 5 of the specification: a provider call that is running is allowed to
  finish); it is seen at the next sleep.
\<close>

definition invoke ::
  "(pydict \<Rightarrow> pyval \<Rightarrow> pyval \<Rightarrow> rat \<times> (exn + pyval)) \<Rightarrow> pydict \<Rightarrow> pyval \<Rightarrow> pyval \<Rightarrow> world
     \<Rightarrow> (exn + pyval) \<times> world" where
  "invoke runner activity configuration secrets w =
    (let (d, outcome) = runner activity configuration secrets in
     (outcome, w\<lparr>clock := clock w + d, trace := trace w @ [Invoked activity]\<rparr>))"

text \<open>
  \<^verbatim>\<open>run_activity\<close> (activity.py, lines 205-233). \<^verbatim>\<open>activity["provider"]\<close> and
  \<^verbatim>\<open>provider["type"]\<close> raise \<^verbatim>\<open>KeyError\<close> on a missing key and \<^verbatim>\<open>TypeError\<close> when
  \<open>provider\<close> is not a dict; with a type that is none of the three, \<open>result\<close> is
  unbound at the \<^verbatim>\<open>return\<close>. The \<^verbatim>\<open>except Exception\<close> clause logs and re-raises.
\<close>

definition run_activity :: "env \<Rightarrow> pydict \<Rightarrow> pyval \<Rightarrow> pyval \<Rightarrow> world \<Rightarrow> (exn + pyval) \<times> world" where
  "run_activity E activity configuration secrets w =
    (case map_of activity ''provider'' of
       None \<Rightarrow> (Inl KeyError, w)
     | Some provider \<Rightarrow>
         (case provider of
            PDict pd \<Rightarrow>
              (case map_of pd ''type'' of
                 None \<Rightarrow> (Inl KeyError, w)
               | Some activity_type \<Rightarrow>
                   if activity_type = PStr ''python'' then
                     invoke (run_python_activity E) activity configuration secrets w
                   else if activity_type = PStr ''process'' then
                     invoke (run_process_activity E) activity configuration secrets w
                   else if activity_type = PStr ''http'' then
                     invoke (run_http_activity E) activity configuration secrets w
                   else (Inl UnboundLocalError, w))
          | _ \<Rightarrow> (Inl TypeError, w)))"

text \<open>
  The \<^verbatim>\<open>try\<close> statement of \<^verbatim>\<open>execute_activity\<close> up to its \<^verbatim>\<open>finally\<close> (lines 162-184):
  the run as the \<^verbatim>\<open>try\<close> and \<^verbatim>\<open>except ActivityFailed\<close> clauses leave it, and the
  exception still propagating, if any.
\<close>

definition try_run_activity ::
  "env \<Rightarrow> pydict \<Rightarrow> pyval \<Rightarrow> pyval \<Rightarrow> bool \<Rightarrow> world \<Rightarrow> (run \<times> exn option) \<times> world" where
  "try_run_activity E activity configuration secrets dry w =
    (let run = \<lparr>r_activity = activity, r_output = PNone, r_status = None, r_exception = None,
                 r_start = None, r_end = None, r_duration = None\<rparr>;
         result = PNone in
     case (if \<not> dry then run_activity E activity configuration secrets w else (Inr result, w)) of
       (Inr result, w1) \<Rightarrow>
         ((run\<lparr>r_output := result, r_status := Some ''succeeded''\<rparr>, None), w1)
     | (Inl x, w1) \<Rightarrow>
         (case x of
            ActivityFailed m \<Rightarrow>
              ((run\<lparr>r_status := Some ''failed'', r_output := result,
                     r_exception := Some (ActivityFailed m)\<rparr>, None), w1)
          | _ \<Rightarrow> ((run, Some x), w1)))"

text \<open>\<^verbatim>\<open>activity["type"].title()\<close>, evaluated for the log line (lines 153-158).\<close>

definition type_title :: "pydict \<Rightarrow> exn + unit" where
  "type_title activity =
    (case map_of activity ''type'' of
       None \<Rightarrow> Inl KeyError
     | Some t \<Rightarrow> if is_str t then Inr () else Inl AttributeError)"

text \<open>
  The body of the \<^verbatim>\<open>with controls(...)\<close> block of \<^verbatim>\<open>execute_activity\<close> (lines 144-200).
  The \<^verbatim>\<open>finally\<close> clause stamps the run and sleeps the pause after (\<open>interrupted\<close> is
  always false); an exception raised there replaces the one propagating.
\<close>

definition activity_block ::
  "env \<Rightarrow> pydict \<Rightarrow> pyval \<Rightarrow> pyval \<Rightarrow> bool \<Rightarrow> world \<Rightarrow> (exn + run) \<times> world" where
  "activity_block E activity configuration secrets dry w =
    (case dict_get_default activity ''pauses'' (PDict []) of
       PDict pauses \<Rightarrow>
         let pause_before = dict_get pauses ''before'' in
         (case pause pause_before dry w of
            (Inl e, w1) \<Rightarrow> (Inl e, w1)
          | (Inr u, w1) \<Rightarrow>
              (case type_title activity of
                 Inl e \<Rightarrow> (Inl e, w1)
               | Inr u \<Rightarrow>
                   let start = clock w1 in
                   (case try_run_activity E activity configuration secrets dry w1 of
                      ((run, pending), w2) \<Rightarrow>
                        let end = clock w2;
                            run = run\<lparr>r_start := Some start, r_end := Some end,
                                      r_duration := Some (end - start)\<rparr>;
                            pause_after = dict_get pauses ''after'' in
                        (case pause pause_after dry w2 of
                           (Inl e, w3) \<Rightarrow> (Inl e, w3)
                         | (Inr u, w3) \<Rightarrow>
                             (case pending of
                                Some x \<Rightarrow> (Inl x, w3)
                              | None \<Rightarrow> (Inr run, w3))))))
     | _ \<Rightarrow> (Inl AttributeError, w))"

text \<open>
  \<^verbatim>\<open>execute_activity\<close> (activity.py, lines 127-202): the reference is resolved before
  the control scope is opened; \<^verbatim>\<open>control.with_state(run)\<close> is the last statement of the
  block.
\<close>

definition resolve :: "pydict \<Rightarrow> pydict \<Rightarrow> exn + pydict" where
  "resolve experiment activity =
    (let ref = dict_get activity ''ref'' in
     if truthy ref then
       (let found = lookup_activity experiment ref in
        if \<not> truthy found then Inl (ActivityFailed (Fmt missing_ref_template ref))
        else (case found of PDict a \<Rightarrow> Inr a | _ \<Rightarrow> Inl AttributeError))
     else Inr activity)"

definition execute_activity ::
  "env \<Rightarrow> pydict \<Rightarrow> pydict \<Rightarrow> pyval \<Rightarrow> pyval \<Rightarrow> bool \<Rightarrow> world \<Rightarrow> (exn + run) \<times> world" where
  "execute_activity E experiment activity configuration secrets dry w =
    (case resolve experiment activity of
       Inl e \<Rightarrow> (Inl e, w)
     | Inr resolved \<Rightarrow>
         controls E ActivityLevel experiment resolved RunState
           (activity_block E resolved configuration secrets dry) w)"

section \<open>Iterating over the method\<close>

text \<open>
  \<^verbatim>\<open>run_activities\<close> (activity.py, lines 102-121), consumed to its end: the items
  yielded, in order, and the exception that ended the generator, if one did.
  \<^verbatim>\<open>pool.submit\<close> records the call and returns its future at once.
\<close>

fun run_activities_loop ::
  "env \<Rightarrow> pydict \<Rightarrow> pyval \<Rightarrow> pyval \<Rightarrow> bool \<Rightarrow> pyval list \<Rightarrow> world
     \<Rightarrow> (item list \<times> exn option) \<times> world" where
  "run_activities_loop E experiment configuration secrets dry [] w = (([], None), w)"
| "run_activities_loop E experiment configuration secrets dry (a # method) w =
    (case a of
       PDict activity \<Rightarrow>
         if truthy (dict_get activity ''background'') then
           (case run_activities_loop E experiment configuration secrets dry method
                   (w\<lparr>trace := trace w @ [Submitted activity]\<rparr>) of
              ((items, x), w2) \<Rightarrow> ((Pending activity # items, x), w2))
         else
           (case execute_activity E experiment activity configuration secrets dry w of
              (Inl e, w1) \<Rightarrow> (([], Some e), w1)
            | (Inr run, w1) \<Rightarrow>
                (case run_activities_loop E experiment configuration secrets dry method w1 of
                   ((items, x), w2) \<Rightarrow> ((Completed run # items, x), w2)))
     | _ \<Rightarrow> (([], Some AttributeError), w))"

definition run_activities ::
  "env \<Rightarrow> pydict \<Rightarrow> pyval \<Rightarrow> pyval \<Rightarrow> bool \<Rightarrow> world \<Rightarrow> (item list \<times> exn option) \<times> world" where
  "run_activities E experiment configuration secrets dry w =
    (case py_iter (dict_get experiment ''method'') of
       Inl e \<Rightarrow> (([], Some e), w)
     | Inr method \<Rightarrow> run_activities_loop E experiment configuration secrets dry method w)"

section \<open>The registry of global controls\<close>






section \<open>The orchestrator\<close>

text \<open>
  Modelled from the spec: \<^verbatim>\<open>chaoslib.experiment\<close> (\<^verbatim>\<open>run_experiment\<close> and the phases it
  drives) is not among the sources; what follows is section 4.6 of the specification,
  with sections 4.4 (steady state), 4.5 (scopes) and 7 (error kinds).
\<close>






















section \<open>Vocabulary of the properties\<close>

text \<open>
  The remaining fields of a full definition as section 4.1 of the specification lists
  them: a type of \<^verbatim>\<open>probe\<close> or \<^verbatim>\<open>action\<close>, a non-empty name, a numeric timeout and
  numeric pauses if present, a boolean \<^verbatim>\<open>background\<close> if present.
\<close>

definition full_definition_fields_ok :: "pydict \<Rightarrow> bool" where
  "full_definition_fields_ok activity =
    ((dict_get activity ''type'' = PStr ''probe'' \<or> dict_get activity ''type'' = PStr ''action'')
     \<and> truthy (dict_get activity ''name'')
     \<and> (dict_get activity ''timeout'' = PNone \<or> is_number (dict_get activity ''timeout''))
     \<and> (dict_get activity ''pauses'' = PNone
        \<or> (\<exists>ps. dict_get activity ''pauses'' = PDict ps
              \<and> (dict_get ps ''before'' = PNone \<or> is_number (dict_get ps ''before''))
              \<and> (dict_get ps ''after'' = PNone \<or> is_number (dict_get ps ''after''))))
     \<and> (dict_has activity ''background'' \<longrightarrow> is_bool (dict_get activity ''background'')))"

text \<open>
  Two worlds that differ by calls of control hooks only: the same clock, pending
  signal and registry, and a trace grown by hook events.
\<close>

fun is_hook_event :: "event \<Rightarrow> bool" where
  "is_hook_event (HookCalled org c l p) = True"
| "is_hook_event e = False"

definition hooks_only :: "world \<Rightarrow> world \<Rightarrow> bool" where
  "hooks_only w w' =
     (clock w' = clock w \<and> signal w' = signal w \<and> global_controls w' = global_controls w
      \<and> initialized w' = initialized w
      \<and> (\<exists>evs. trace w' = trace w @ evs \<and> list_all is_hook_event evs))"


text \<open>
  What the provider dispatch of an activity gives and the seconds it takes: those of
  \<^verbatim>\<open>run_activity\<close>, which depend on no world.
\<close>

definition idle :: world where
  "idle = \<lparr>clock = 0, trace = [], signal = None, global_controls = [], initialized = False\<rparr>"

definition provider_outcome :: "env \<Rightarrow> pydict \<Rightarrow> pyval \<Rightarrow> pyval \<Rightarrow> exn + pyval" where
  "provider_outcome E a c s = fst (run_activity E a c s idle)"

definition provider_seconds :: "env \<Rightarrow> pydict \<Rightarrow> pyval \<Rightarrow> pyval \<Rightarrow> rat" where
  "provider_seconds E a c s = clock (snd (run_activity E a c s idle))"

text \<open>The seconds configured for the pause \<open>k\<close> of an activity; none configured is 0.\<close>

definition configured_pause :: "pydict \<Rightarrow> string \<Rightarrow> rat" where
  "configured_pause a k =
    (case dict_get_default a ''pauses'' (PDict []) of
       PDict ps \<Rightarrow> (case seconds_of (dict_get ps k) of Some d \<Rightarrow> d | None \<Rightarrow> 0)
     | _ \<Rightarrow> 0)"



text \<open>The run as \<^verbatim>\<open>execute_activity\<close> creates it (lines 162-165).\<close>

definition fresh_run :: "pydict \<Rightarrow> run" where
  "fresh_run a = \<lparr>r_activity = a, r_output = PNone, r_status = None, r_exception = None,
                 r_start = None, r_end = None, r_duration = None\<rparr>"

text \<open>
  One step of \<^verbatim>\<open>run_activities\<close> in the words of section 4.3: for an entry whose
  \<^verbatim>\<open>background\<close> is true, the call is submitted to the pool and the pending future is
  yielded, nothing else happening; otherwise the entry is executed there and then and
  its run is yielded. And the step that ends the iteration: the execution of a
  foreground entry raises (or the entry is no mapping, so that \<^verbatim>\<open>.get\<close> raises).
\<close>

definition yields ::
  "env \<Rightarrow> pydict \<Rightarrow> pyval \<Rightarrow> pyval \<Rightarrow> bool \<Rightarrow> pyval \<Rightarrow> item \<Rightarrow> world \<Rightarrow> world \<Rightarrow> bool" where
  "yields E experiment c s dry entry it w1 w2 =
    (\<exists>a. entry = PDict a \<and>
       (if truthy (dict_get a ''background'') then
          it = Pending a \<and> w2 = w1\<lparr>trace := trace w1 @ [Submitted a]\<rparr>
        else (\<exists>run. it = Completed run
                \<and> execute_activity E experiment a c s dry w1 = (Inr run, w2))))"

definition raises_at ::
  "env \<Rightarrow> pydict \<Rightarrow> pyval \<Rightarrow> pyval \<Rightarrow> bool \<Rightarrow> pyval \<Rightarrow> exn \<Rightarrow> world \<Rightarrow> world \<Rightarrow> bool" where
  "raises_at E experiment c s dry entry e w1 w2 =
    (case entry of
       PDict a \<Rightarrow> \<not> truthy (dict_get a ''background'')
                  \<and> execute_activity E experiment a c s dry w1 = (Inl e, w2)
     | _ \<Rightarrow> e = AttributeError \<and> w2 = w1)"













section \<open>Sample documents\<close>

text \<open>Providers whose validators accept and whose runners return \<^verbatim>\<open>None\<close> at once.\<close>

definition accept_all :: providers where
  "accept_all = \<lparr>validate_python_activity = (\<lambda>a. Inr ()),
     validate_process_activity = (\<lambda>a. Inr ()),
     validate_http_activity = (\<lambda>a. Inr ()),
     run_python_activity = (\<lambda>a c s. (0, Inr PNone)),
     run_process_activity = (\<lambda>a c s. (0, Inr PNone)),
     run_http_activity = (\<lambda>a c s. (0, Inr PNone))\<rparr>"

definition python_action :: pydict where
  "python_action =
     [(''type'', PStr ''action''), (''name'', PStr ''a''),
      (''provider'', PDict [(''type'', PStr ''python''), (''module'', PStr ''os''),
                            (''func'', PStr ''getcwd'')])]"

definition code_action :: pydict where
  "code_action =
     [(''type'', PStr ''action''), (''name'', PStr ''a''),
      (''provider'', PDict [(''type'', PStr ''code''), (''module'', PStr ''os''),
                            (''func'', PStr ''getcwd'')])]"

text \<open>
  An environment without controls, whose hooks return, whose three runners are the one
  given, whose tolerances are met and whose futures give nothing.
\<close>

definition quiet_env :: "(pydict \<Rightarrow> pyval \<Rightarrow> pyval \<Rightarrow> rat \<times> (exn + pyval)) \<Rightarrow> env" where
  "quiet_env runner =
     \<lparr>validate_python_activity = (\<lambda>a. Inr ()),
      validate_process_activity = (\<lambda>a. Inr ()),
      validate_http_activity = (\<lambda>a. Inr ()),
      run_python_activity = runner,
      run_process_activity = runner,
      run_http_activity = runner,
      hook = (\<lambda>c l p ctx st. HookReturns),
      get_context_controls = (\<lambda>l e ctx. []),
      configure_control = (\<lambda>c. True),
      within_tolerance = (\<lambda>t v. True),
      await_future = (\<lambda>a. None),
      getenv = (\<lambda>k. None)\<rparr>"



definition steady_runner :: "pydict \<Rightarrow> pyval \<Rightarrow> pyval \<Rightarrow> rat \<times> (exn + pyval)" where
  "steady_runner a c s = (2, Inr (PStr ''ok''))"

text \<open>The action with a pause after of -1, with one of 0, and with pauses of 3 and 5
  seconds.\<close>

definition negative_pause_action :: pydict where
  "negative_pause_action = python_action @ [(''pauses'', PDict [(''after'', PInt (- 1))])]"

definition zero_pause_action :: pydict where
  "zero_pause_action = python_action @ [(''pauses'', PDict [(''after'', PInt 0)])]"

definition paused_action :: pydict where
  "paused_action =
     python_action @ [(''pauses'', PDict [(''before'', PInt 3), (''after'', PInt 5)])]"

text \<open>
  An experiment whose method is a probe and a reference to an activity that does not
  exist (the shape of the one \<^verbatim>\<open>test_probes_missing_ref_should_fail_the_experiment\<close>
  runs), and one whose method is an action and an action in the background.
\<close>

definition python_probe :: pydict where
  "python_probe =
     [(''type'', PStr ''probe''), (''name'', PStr ''p''),
      (''provider'', PDict [(''type'', PStr ''python''), (''module'', PStr ''os''),
                            (''func'', PStr ''getcwd'')])]"

definition missing_ref_experiment :: pydict where
  "missing_ref_experiment =
     [(''title'', PStr ''t''), (''description'', PStr ''d''),
      (''method'', PList [PDict python_probe, PDict [(''ref'', PStr ''nope'')]])]"

definition background_action :: pydict where
  "background_action = python_action @ [(''background'', PBool True)]"

definition background_experiment :: pydict where
  "background_experiment =
     [(''title'', PStr ''t''), (''description'', PStr ''d''),
      (''method'', PList [PDict python_action, PDict background_action])]"












section \<open>Validation: properties\<close>

lemma valid_no_provider:
  assumes "dict_get activity ''ref'' = PNone" "\<not> truthy (dict_get activity ''provider'')"
  shows "\<exists>m. ensure_activity_is_valid P activity = Inl (InvalidActivity m)"
  using assms unfolding ensure_activity_is_valid_def by (simp add: Let_def)

lemma valid_unknown_provider_type:
  assumes "dict_get activity ''ref'' = PNone" "dict_get activity ''provider'' = PDict pd"
     "dict_get pd ''type'' \<noteq> PStr ''python''" "dict_get pd ''type'' \<noteq> PStr ''process''"
     "dict_get pd ''type'' \<noteq> PStr ''http''"
  shows "\<exists>m. ensure_activity_is_valid P activity = Inl (InvalidActivity m)"
  using assms unfolding ensure_activity_is_valid_def by (simp add: Let_def)

lemma valid_known_provider_type:
  assumes "dict_get activity ''ref'' = PNone" "dict_get activity ''provider'' = PDict pd"
    "full_definition_fields_ok activity" "dict_get pd ''type'' = PStr t"
    "t = ''python'' \<or> t = ''process'' \<or> t = ''http''"
  shows "ensure_activity_is_valid P activity =
     (if t = ''python'' then validate_python_activity P activity
      else if t = ''process'' then validate_process_activity P activity
      else validate_http_activity P activity)"
proof -
  have ne: "(activity = []) = False" using assms(2) by (auto simp: dict_get_def)
  have pdne: "truthy (PDict pd) = True" using assms(4) by (auto simp: dict_get_def)
  have ty: "truthy (dict_get activity ''type'') = True"
    "(dict_get activity ''type'' \<noteq> PStr ''probe''
       \<and> dict_get activity ''type'' \<noteq> PStr ''action'') = False"
    using assms(3) by (auto simp: full_definition_fields_ok_def)
  have nm: "truthy (dict_get activity ''name'') = True"
    using assms(3) by (simp add: full_definition_fields_ok_def)
  have tm: "(dict_get activity ''timeout'' \<noteq> PNone
              \<and> \<not> is_number (dict_get activity ''timeout'')) = False"
    using assms(3) by (auto simp: full_definition_fields_ok_def)
  have bg: "(dict_has activity ''background''
              \<and> \<not> is_bool (dict_get activity ''background'')) = False"
    using assms(3) by (auto simp: full_definition_fields_ok_def)
  have ps: "check_pauses (dict_get activity ''pauses'') = Inr ()"
    using assms(3) by (auto simp: full_definition_fields_ok_def check_pauses_def Let_def)
  have pty: "truthy (PStr t) = True"
     "(PStr t \<noteq> PStr ''python'' \<and> PStr t \<noteq> PStr ''process'' \<and> PStr t \<noteq> PStr ''http'') = False"
    using assms(5) by auto
  have "ensure_activity_is_valid P activity =
     (if PStr t = PStr ''python'' then validate_python_activity P activity
      else if PStr t = PStr ''process'' then validate_process_activity P activity
      else if PStr t = PStr ''http'' then validate_http_activity P activity else Inr ())"
    unfolding ensure_activity_is_valid_def Let_def
    by (simp only: ne assms(1) assms(2) assms(4) ty nm tm bg ps pty pdne
         pyval.case sum.case if_True if_False simp_thms)
  then show ?thesis using assms(5) by auto
qed

text \<open>
  C5, as the code has it. For an activity without a reference, the provider types that
  pass \<^verbatim>\<open>ensure_activity_is_valid\<close> are exactly \<^verbatim>\<open>python\<close>, \<^verbatim>\<open>process\<close> and \<^verbatim>\<open>http\<close>: with one
  of them and the other fields in order, the outcome is that of the validator of that
  provider; with a provider that is missing or empty, or a provider mapping whose type is
  anything else or missing, \<^verbatim>\<open>InvalidActivity\<close> is raised whatever the other fields are.
\<close>

theorem provider_types_python_process_http:
  assumes "dict_get activity ''ref'' = PNone"
  shows "(\<not> truthy (dict_get activity ''provider'') \<longrightarrow>
            (\<exists>m. ensure_activity_is_valid P activity = Inl (InvalidActivity m)))
       \<and> (\<forall>pd. dict_get activity ''provider'' = PDict pd \<longrightarrow>
            (if dict_get pd ''type'' = PStr ''python'' then
               full_definition_fields_ok activity \<longrightarrow>
                 ensure_activity_is_valid P activity = validate_python_activity P activity
             else if dict_get pd ''type'' = PStr ''process'' then
               full_definition_fields_ok activity \<longrightarrow>
                 ensure_activity_is_valid P activity = validate_process_activity P activity
             else if dict_get pd ''type'' = PStr ''http'' then
               full_definition_fields_ok activity \<longrightarrow>
                 ensure_activity_is_valid P activity = validate_http_activity P activity
             else (\<exists>m. ensure_activity_is_valid P activity = Inl (InvalidActivity m))))"
proof (intro conjI allI impI)
  assume "\<not> truthy (dict_get activity ''provider'')"
  with assms show "\<exists>m. ensure_activity_is_valid P activity = Inl (InvalidActivity m)"
    by (rule valid_no_provider)
next
  fix pd assume pd: "dict_get activity ''provider'' = PDict pd"
  show "if dict_get pd ''type'' = PStr ''python'' then
               full_definition_fields_ok activity \<longrightarrow>
                 ensure_activity_is_valid P activity = validate_python_activity P activity
             else if dict_get pd ''type'' = PStr ''process'' then
               full_definition_fields_ok activity \<longrightarrow>
                 ensure_activity_is_valid P activity = validate_process_activity P activity
             else if dict_get pd ''type'' = PStr ''http'' then
               full_definition_fields_ok activity \<longrightarrow>
                 ensure_activity_is_valid P activity = validate_http_activity P activity
             else (\<exists>m. ensure_activity_is_valid P activity = Inl (InvalidActivity m))"
    using valid_known_provider_type [OF assms pd, of "''python''" P]
          valid_known_provider_type [OF assms pd, of "''process''" P]
          valid_known_provider_type [OF assms pd, of "''http''" P]
          valid_unknown_provider_type [OF assms pd, of P]
    by simp
qed

theorem provider_types_python_process_http_witness:
  "dict_get python_action ''ref'' = PNone
   \<and> full_definition_fields_ok python_action
   \<and> ensure_activity_is_valid accept_all python_action = Inr ()"
proof -
  have r: "dict_get python_action ''ref'' = PNone"
    by (simp add: python_action_def dict_get_def)
  have f: "full_definition_fields_ok python_action"
    by (simp add: python_action_def full_definition_fields_ok_def dict_get_def dict_has_def)
  have p: "dict_get python_action ''provider'' =
      PDict [(''type'', PStr ''python''), (''module'', PStr ''os''), (''func'', PStr ''getcwd'')]"
    by (simp add: python_action_def dict_get_def)
  from provider_types_python_process_http [OF r, of accept_all] p f
  have "ensure_activity_is_valid accept_all python_action
          = validate_python_activity accept_all python_action"
    by (simp add: dict_get_def)
  then show ?thesis using r f by (simp add: accept_all_def)
qed

text \<open>
  C5, as the specification words it, fails: a provider of type \<^verbatim>\<open>code\<close> in an otherwise
  complete action is rejected by the provider-type check.
\<close>

theorem provider_type_code_rejected:
  "ensure_activity_is_valid accept_all code_action
     = Inl (InvalidActivity (Fmt unknown_provider_template (PStr ''code'')))"
  by (simp add: ensure_activity_is_valid_def dict_get_def dict_has_def accept_all_def
        code_action_def)

text \<open>
  C6, as the code has it. When the \<^verbatim>\<open>ref\<close> key holds anything but \<^verbatim>\<open>None\<close>, the outcome of
  \<^verbatim>\<open>ensure_activity_is_valid\<close> is a function of that value alone: a normal return for a
  non-empty string, \<^verbatim>\<open>InvalidActivity\<close> otherwise; no other field and no provider
  validator takes part.
\<close>

theorem reference_is_all_that_is_checked:
  assumes "map_of activity ''ref'' = Some r" and "r \<noteq> PNone"
  shows "ensure_activity_is_valid P activity =
     (if is_str r \<and> r \<noteq> PStr [] then Inr ()
      else Inl (InvalidActivity (Msg ''reference to activity must be non-empty strings'')))"
proof -
  from assms(1) have ne: "activity \<noteq> []" by auto
  from assms(1) have g: "dict_get activity ''ref'' = r" by (simp add: dict_get_def)
  show ?thesis
    unfolding ensure_activity_is_valid_def using ne g assms(2) by (simp add: Let_def)
qed

theorem reference_is_all_that_is_checked_witness:
  "map_of [(''ref'', PStr ''probe-1''), (''type'', PInt 3)] ''ref'' = Some (PStr ''probe-1'')
   \<and> PStr ''probe-1'' \<noteq> PNone
   \<and> ensure_activity_is_valid accept_all [(''ref'', PStr ''probe-1''), (''type'', PInt 3)] = Inr ()"
  using reference_is_all_that_is_checked
          [of "[(''ref'', PStr ''probe-1''), (''type'', PInt 3)]" "PStr ''probe-1''" accept_all]
  by simp

text \<open>
  C6, as the specification words it, fails when the \<^verbatim>\<open>ref\<close> key is present and holds
  \<^verbatim>\<open>None\<close>: for the activity below, \<^verbatim>\<open>ensure_activity_is_valid\<close> returns normally
  although the reference is not a non-empty string.
\<close>

theorem null_reference_validated_as_full_definition:
  "map_of ((''ref'', PNone) # python_action) ''ref'' = Some PNone
   \<and> ensure_activity_is_valid accept_all ((''ref'', PNone) # python_action) = Inr ()"
  by (simp add: ensure_activity_is_valid_def dict_get_def dict_has_def accept_all_def
        python_action_def check_pauses_def)

section \<open>Execution of one activity: lemmas\<close>


lemma hooks_only_refl: "hooks_only w w"
  by (simp add: hooks_only_def)

lemma hooks_only_trans: "hooks_only w w1 \<Longrightarrow> hooks_only w1 w2 \<Longrightarrow> hooks_only w w2"
  by (auto simp: hooks_only_def)

lemma apply_controls_hooks_only:
  "hooks_only w (snd (apply_controls E cs l p ctx st w))"
proof (induction cs arbitrary: w)
  case Nil
  show ?case by (simp add: hooks_only_refl)
next
  case (Cons oc cs)
  obtain org c where oc: "oc = (org, c)" by (cases oc)
  let ?w1 = "w\<lparr>trace := trace w @ [HookCalled org c l p]\<rparr>"
  have step: "hooks_only w ?w1" by (simp add: hooks_only_def)
  show ?case
  proof (cases "on_side c p")
    case False
    then show ?thesis using Cons.IH [of w] oc by simp
  next
    case True
    show ?thesis
    proof (cases "hook E c l p ctx st")
      case HookInterrupts
      then show ?thesis using True step oc by (simp add: Let_def)
    next
      case HookReturns
      then show ?thesis using True oc hooks_only_trans [OF step Cons.IH [of ?w1]]
        by (simp add: Let_def)
    next
      case HookFails
      then show ?thesis using True oc hooks_only_trans [OF step Cons.IH [of ?w1]]
        by (simp add: Let_def)
    qed
  qed
qed

lemma apply_controls_raises:
  "fst (apply_controls E cs l p ctx st w) = Inl e \<Longrightarrow> e = InterruptExecution"
proof (induction cs arbitrary: w)
  case Nil
  then show ?case by simp
next
  case (Cons oc cs)
  obtain org c where oc: "oc = (org, c)" by (cases oc)
  with Cons show ?case
    by (cases "on_side c p"; cases "hook E c l p ctx st") (auto simp: Let_def)
qed




lemma seconds_falsy: "\<not> truthy v \<Longrightarrow> (case seconds_of v of Some d \<Rightarrow> d | None \<Rightarrow> 0) = 0"
  by (cases v) auto

lemma pause_dry: "pause v True w = (Inr (), w)"
  by (simp add: pause_def)

lemma pause_returns:
  assumes "pause v dry w = (Inr u, w')"
  shows "clock w' = clock w + (if dry then 0 else (case seconds_of v of Some d \<Rightarrow> d | None \<Rightarrow> 0))
         \<and> signal w' = signal w \<and> global_controls w' = global_controls w"
proof (cases "truthy v \<and> \<not> dry")
  case False
  then have "w' = w" using assms by (auto simp: pause_def split: if_splits)
  then show ?thesis using False seconds_falsy [of v] by auto
next
  case True
  then have "py_sleep v w = (Inr u, w')" using assms by (simp add: pause_def)
  then show ?thesis using True
    by (auto simp: py_sleep_def Let_def split: option.splits if_splits prod.splits)
qed




lemma invoke_idle:
  "invoke r a c s w = (fst (invoke r a c s idle),
      w\<lparr>clock := clock w + clock (snd (invoke r a c s idle)), trace := trace w @ [Invoked a]\<rparr>)"
  by (simp add: invoke_def idle_def split: prod.splits)

lemma run_activity_idle:
  "fst (run_activity E a c s w) = provider_outcome E a c s
   \<and> clock (snd (run_activity E a c s w)) = clock w + provider_seconds E a c s
   \<and> signal (snd (run_activity E a c s w)) = signal w
   \<and> global_controls (snd (run_activity E a c s w)) = global_controls w"
  unfolding provider_outcome_def provider_seconds_def run_activity_def
  by (auto simp: invoke_def idle_def split: option.splits pyval.splits prod.splits)



lemma try_dry:
  "try_run_activity E a c s True w =
     ((fresh_run a\<lparr>r_output := PNone, r_status := Some ''succeeded''\<rparr>, None), w)"
  by (simp add: try_run_activity_def fresh_run_def)




lemma try_world:
  "clock (snd (try_run_activity E a c s dry w))
      = clock w + (if dry then 0 else provider_seconds E a c s)
   \<and> signal (snd (try_run_activity E a c s dry w)) = signal w
   \<and> global_controls (snd (try_run_activity E a c s dry w)) = global_controls w"
proof (cases dry)
  case True
  then show ?thesis by (simp add: try_dry)
next
  case False
  have "snd (try_run_activity E a c s False w) = snd (run_activity E a c s w)"
    by (simp add: try_run_activity_def Let_def split: prod.splits sum.splits exn.splits)
  then show ?thesis using False run_activity_idle [of E a c s w] by simp
qed



lemma activity_block_returns:
  assumes "activity_block E a c s dry w = (Inr r, w3)"
  shows "\<exists>ps w1 w2 run. dict_get_default a ''pauses'' (PDict []) = PDict ps
     \<and> pause (dict_get ps ''before'') dry w = (Inr (), w1)
     \<and> try_run_activity E a c s dry w1 = ((run, None), w2)
     \<and> pause (dict_get ps ''after'') dry w2 = (Inr (), w3)
     \<and> r = run\<lparr>r_start := Some (clock w1), r_end := Some (clock w2),
                  r_duration := Some (clock w2 - clock w1)\<rparr>"
  using assms
  by (auto simp: activity_block_def Let_def
        split: pyval.splits prod.splits sum.splits option.splits)

lemma activity_block_dry: "snd (activity_block E a c s True w) = w"
  by (simp add: activity_block_def try_dry pause_dry Let_def
        split: pyval.splits sum.splits prod.splits option.splits)




lemma controls_cases:
  assumes "controls E l ex ctx f body w = (res, w')"
  shows "\<exists>w1. hooks_only w w1 \<and>
     ((res = Inl InterruptExecution \<and> w' = w1)
      \<or> (\<exists>r2 w2. body w1 = (r2, w2) \<and> hooks_only w2 w'
            \<and> (res = r2 \<or> res = Inl InterruptExecution)))"
proof -
  let ?cs = "effective_controls E l ex ctx w"
  obtain b w1 where b: "apply_controls E ?cs l Before ctx None w = (b, w1)"
    by (cases "apply_controls E ?cs l Before ctx None w")
  have h1: "hooks_only w w1"
    using apply_controls_hooks_only [of w E ?cs l Before ctx None] b by simp
  show ?thesis
  proof (cases b)
    case (Inl e)
    then have "e = InterruptExecution"
      using apply_controls_raises [of E ?cs l Before ctx None w e] b by simp
    then show ?thesis using assms b Inl h1 by (auto simp: controls_def)
  next
    case (Inr u)
    obtain r2 w2 where body: "body w1 = (r2, w2)" by (cases "body w1")
    let ?cs2 = "effective_controls E l ex ctx w2"
    let ?st = "case r2 of Inl x \<Rightarrow> None | Inr v \<Rightarrow> Some (f v)"
    obtain a w3 where a: "apply_controls E ?cs2 l After ctx ?st w2 = (a, w3)"
      by (cases "apply_controls E ?cs2 l After ctx ?st w2")
    have h2: "hooks_only w2 w3"
      using apply_controls_hooks_only [of w2 E ?cs2 l After ctx ?st] a by simp
    have ar: "\<And>e. a = Inl e \<Longrightarrow> e = InterruptExecution"
      using apply_controls_raises [of E ?cs2 l After ctx ?st w2] a by simp
    have "w' = w3 \<and> (res = r2 \<or> res = Inl InterruptExecution)"
      using assms b Inr body a ar
      by (cases r2; cases a) (auto simp: controls_def)
    then show ?thesis using h1 h2 body by blast
  qed
qed






lemma configured_pause_eq:
  "dict_get_default a ''pauses'' (PDict []) = PDict ps \<Longrightarrow>
   configured_pause a k = (case seconds_of (dict_get ps k) of Some d \<Rightarrow> d | None \<Rightarrow> 0)"
  by (simp add: configured_pause_def)


lemmas execution_defs =
  execute_activity_def resolve_def controls_def effective_controls_def
  activity_block_def try_run_activity_def run_activity_def invoke_def pause_def py_sleep_def
  type_title_def dict_get_def dict_get_default_def dict_has_def quiet_env_def idle_def
  python_action_def Let_def

lemma execute_activity_resolved:
  "resolve experiment activity = Inr a \<Longrightarrow>
   execute_activity E experiment activity c s dry w =
     controls E ActivityLevel experiment a RunState (activity_block E a c s dry) w"
  by (simp add: execute_activity_def)








lemma try_activity: "r_activity (fst (fst (try_run_activity E a c s dry w))) = a"
  by (simp add: try_run_activity_def Let_def split: prod.splits sum.splits exn.splits)

text \<open>
  C3, as the code has it. In dry mode \<^verbatim>\<open>execute_activity\<close> invokes no provider runner and
  sleeps no pause: the world it leaves differs from the one it found by calls of
  control hooks only (the clock has not moved, the trace holds no new sleep and no new
  invocation); a run it returns has duration 0; and when the pauses configured for the
  resolved activity sum to more than zero, the time the call took is less than that sum.
\<close>

theorem dry_run_neither_invokes_nor_sleeps:
  "hooks_only w (snd (execute_activity E experiment activity c s True w))
   \<and> (\<forall>run. fst (execute_activity E experiment activity c s True w) = Inr run \<longrightarrow>
         r_duration run = Some 0)
   \<and> (\<forall>a. resolve experiment activity = Inr a \<longrightarrow>
         0 < configured_pause a ''before'' + configured_pause a ''after'' \<longrightarrow>
         clock (snd (execute_activity E experiment activity c s True w)) - clock w
           < configured_pause a ''before'' + configured_pause a ''after'')"
proof -
  obtain res w' where ex: "execute_activity E experiment activity c s True w = (res, w')"
    by (cases "execute_activity E experiment activity c s True w")
  have A: "hooks_only w w' \<and> (\<forall>run. res = Inr run \<longrightarrow> r_duration run = Some 0)"
  proof (cases "resolve experiment activity")
    case (Inl e)
    then show ?thesis using ex by (auto simp: execute_activity_def hooks_only_refl)
  next
    case (Inr a)
    with ex have r: "controls E ActivityLevel experiment a RunState
        (activity_block E a c s True) w = (res, w')"
      by (simp add: execute_activity_resolved)
    from controls_cases [OF r] obtain w1 where h1: "hooks_only w w1"
      and alt: "(res = Inl InterruptExecution \<and> w' = w1)
        \<or> (\<exists>r2 w2. activity_block E a c s True w1 = (r2, w2) \<and> hooks_only w2 w'
              \<and> (res = r2 \<or> res = Inl InterruptExecution))" by blast
    from alt show ?thesis
    proof
      assume "res = Inl InterruptExecution \<and> w' = w1"
      then show ?thesis using h1 by simp
    next
      assume "\<exists>r2 w2. activity_block E a c s True w1 = (r2, w2) \<and> hooks_only w2 w'
              \<and> (res = r2 \<or> res = Inl InterruptExecution)"
      then obtain r2 w2 where b: "activity_block E a c s True w1 = (r2, w2)"
        and h2: "hooks_only w2 w'" and rr: "res = r2 \<or> res = Inl InterruptExecution" by blast
      have "w2 = w1" using activity_block_dry [of E a c s w1] b by simp
      then have hw: "hooks_only w w'" using h1 h2 hooks_only_trans by blast
      have "\<forall>run. res = Inr run \<longrightarrow> r_duration run = Some 0"
      proof (intro allI impI)
        fix run assume "res = Inr run"
        with rr b have "activity_block E a c s True w1 = (Inr run, w2)" by auto
        from activity_block_returns [OF this] show "r_duration run = Some 0"
          by (auto simp: pause_dry try_dry)
      qed
      with hw show ?thesis by simp
    qed
  qed
  then have "clock w' = clock w" by (simp add: hooks_only_def)
  with A ex show ?thesis by simp
qed

theorem dry_run_neither_invokes_nor_sleeps_witness:
  "resolve [] paused_action = Inr paused_action
   \<and> 0 < configured_pause paused_action ''before'' + configured_pause paused_action ''after''
   \<and> clock (snd (execute_activity (quiet_env steady_runner) [] paused_action PNone PNone
                    True idle)) - clock idle < 8
   \<and> hooks_only idle
        (snd (execute_activity (quiet_env steady_runner) [] paused_action PNone PNone True idle))"
proof -
  have r: "resolve [] paused_action = Inr paused_action"
    by (simp add: resolve_def paused_action_def python_action_def dict_get_def)
  have b: "configured_pause paused_action ''before'' = 3"
    by (simp add: configured_pause_def paused_action_def python_action_def
          dict_get_default_def dict_get_def)
  have a: "configured_pause paused_action ''after'' = 5"
    by (simp add: configured_pause_def paused_action_def python_action_def
          dict_get_default_def dict_get_def)
  from dry_run_neither_invokes_nor_sleeps
         [of idle "quiet_env steady_runner" "[]" paused_action PNone PNone] r a b
  show ?thesis by simp
qed

text \<open>
  C3, as the specification words it, fails: a dry run of an action with a pause after
  of -1 (a number, so the action passes validation; it is truthy, so the code logs the
  pause) returns a run of duration 0 and takes no time, which is not less than the sum
  of the configured pauses. Likewise with a pause after of 0: the duration 0 is not
  less than the sum 0.
\<close>

theorem dry_run_not_below_negative_pause:
  "ensure_activity_is_valid accept_all negative_pause_action = Inr ()
   \<and> map_of negative_pause_action ''pauses'' = Some (PDict [(''after'', PInt (- 1))])
   \<and> fst (execute_activity (quiet_env steady_runner) [] negative_pause_action PNone PNone
             True idle)
       = Inr ((fresh_run negative_pause_action)
                \<lparr>r_output := PNone, r_status := Some ''succeeded'', r_start := Some 0,
                 r_end := Some 0, r_duration := Some 0\<rparr>)
   \<and> \<not> (clock (snd (execute_activity (quiet_env steady_runner) [] negative_pause_action
                        PNone PNone True idle)) - clock idle
          < configured_pause negative_pause_action ''before''
            + configured_pause negative_pause_action ''after'')
   \<and> ensure_activity_is_valid accept_all zero_pause_action = Inr ()
   \<and> map_of zero_pause_action ''pauses'' = Some (PDict [(''after'', PInt 0)])
   \<and> r_duration (projr (fst (execute_activity (quiet_env steady_runner) [] zero_pause_action
                                PNone PNone True idle))) = Some 0
   \<and> \<not> (clock (snd (execute_activity (quiet_env steady_runner) [] zero_pause_action
                        PNone PNone True idle)) - clock idle
          < configured_pause zero_pause_action ''before''
            + configured_pause zero_pause_action ''after'')"
  by (simp add: execution_defs negative_pause_action_def zero_pause_action_def steady_runner_def
        configured_pause_def fresh_run_def ensure_activity_is_valid_def check_pauses_def
        accept_all_def)

text \<open>
  C10. For every run that \<^verbatim>\<open>execute_activity\<close> returns: it is a run of the resolved
  activity; its start is the instant of the call plus the pause before (slept unless
  in dry mode); its end is its start plus the seconds the provider took; its duration is
  those seconds alone (so it is end minus start, and holds neither pause); and the clock
  when the call returns is the end of the run plus the pause after.
\<close>

theorem run_duration_excludes_pauses:
  assumes "execute_activity E experiment activity c s dry w = (Inr run, w')"
  shows "resolve experiment activity = Inr (r_activity run)
    \<and> r_start run =
        Some (clock w + (if dry then 0 else configured_pause (r_activity run) ''before''))
    \<and> r_end run =
        Some (clock w + (if dry then 0 else configured_pause (r_activity run) ''before'')
                + (if dry then 0 else provider_seconds E (r_activity run) c s))
    \<and> r_duration run = Some (if dry then 0 else provider_seconds E (r_activity run) c s)
    \<and> clock w' =
        clock w + (if dry then 0 else configured_pause (r_activity run) ''before'')
          + (if dry then 0 else provider_seconds E (r_activity run) c s)
          + (if dry then 0 else configured_pause (r_activity run) ''after'')"
proof -
  obtain a where res: "resolve experiment activity = Inr a"
    using assms by (cases "resolve experiment activity") (auto simp: execute_activity_def)
  with assms have r: "controls E ActivityLevel experiment a RunState
        (activity_block E a c s dry) w = (Inr run, w')"
    by (simp add: execute_activity_resolved)
  from controls_cases [OF r] obtain w1 w2 where h1: "hooks_only w w1"
    and b: "activity_block E a c s dry w1 = (Inr run, w2)" and h2: "hooks_only w2 w'"
    by auto
  from activity_block_returns [OF b] obtain ps v1 v2 run0 where
    ps: "dict_get_default a ''pauses'' (PDict []) = PDict ps"
    and p1: "pause (dict_get ps ''before'') dry w1 = (Inr (), v1)"
    and t: "try_run_activity E a c s dry v1 = ((run0, None), v2)"
    and p2: "pause (dict_get ps ''after'') dry v2 = (Inr (), w2)"
    and run: "run = run0\<lparr>r_start := Some (clock v1), r_end := Some (clock v2),
                  r_duration := Some (clock v2 - clock v1)\<rparr>" by blast
  have ra: "r_activity run = a" using try_activity [of E a c s dry v1] t run by simp
  have c1: "clock v1 = clock w + (if dry then 0 else configured_pause a ''before'')"
    using pause_returns [OF p1] h1 configured_pause_eq [OF ps, of "''before''"]
    by (simp add: hooks_only_def)
  have c2: "clock v2 = clock v1 + (if dry then 0 else provider_seconds E a c s)"
    using try_world [of E a c s dry v1] t by simp
  have c3: "clock w' = clock v2 + (if dry then 0 else configured_pause a ''after'')"
    using pause_returns [OF p2] h2 configured_pause_eq [OF ps, of "''after''"]
    by (simp add: hooks_only_def)
  show ?thesis using res ra run c1 c2 c3 by simp
qed

theorem run_duration_excludes_pauses_witness:
  "\<exists>run w'. execute_activity (quiet_env steady_runner) [] paused_action PNone PNone False idle
               = (Inr run, w')
     \<and> r_start run = Some 3 \<and> r_end run = Some 5 \<and> r_duration run = Some 2
     \<and> clock w' = 10"
proof -
  obtain run w' where
    ex: "execute_activity (quiet_env steady_runner) [] paused_action PNone PNone False idle
           = (Inr run, w')"
    by (simp add: execution_defs paused_action_def steady_runner_def)
  note t = run_duration_excludes_pauses [OF ex]
  have r: "resolve [] paused_action = Inr paused_action"
    by (simp add: resolve_def paused_action_def python_action_def dict_get_def)
  with t have ra: "r_activity run = paused_action" by simp
  have b: "configured_pause paused_action ''before'' = 3"
    by (simp add: configured_pause_def paused_action_def python_action_def
          dict_get_default_def dict_get_def)
  have a: "configured_pause paused_action ''after'' = 5"
    by (simp add: configured_pause_def paused_action_def python_action_def
          dict_get_default_def dict_get_def)
  have p: "provider_seconds (quiet_env steady_runner) paused_action PNone PNone = 2"
    by (simp add: provider_seconds_def execution_defs paused_action_def steady_runner_def)
  have c: "clock idle = 0" by (simp add: idle_def)
  from t ra a b p c have "r_start run = Some 3 \<and> r_end run = Some 5
      \<and> r_duration run = Some 2 \<and> clock w' = 10" by simp
  with ex show ?thesis by blast
qed

section \<open>Iterating over the method: properties\<close>

lemma loop_in_order:
  "run_activities_loop E experiment c s dry acts w = ((items, x), w') \<Longrightarrow>
   \<exists>ws. length ws = Suc (length items) \<and> ws ! 0 = w
     \<and> (\<forall>i<length items. yields E experiment c s dry (acts ! i) (items ! i) (ws ! i) (ws ! Suc i))
     \<and> (case x of
          None \<Rightarrow> length items = length acts \<and> ws ! length items = w'
        | Some e \<Rightarrow> length items < length acts
            \<and> raises_at E experiment c s dry (acts ! length items) e (ws ! length items) w')"
proof (induction acts arbitrary: w items x w')
  case Nil
  then have "items = []" "x = None" "w' = w" by simp_all
  then show ?case by (intro exI [of _ "[w]"]) simp
next
  case (Cons entry rest)
  show ?case
  proof (cases entry)
    case (PDict a)
    show ?thesis
    proof (cases "truthy (dict_get a ''background'')")
      case True
      let ?w1 = "w\<lparr>trace := trace w @ [Submitted a]\<rparr>"
      obtain items' x' w2 where
        r: "run_activities_loop E experiment c s dry rest ?w1 = ((items', x'), w2)"
        by (cases "run_activities_loop E experiment c s dry rest ?w1") auto
      with Cons.prems PDict True have eq: "items = Pending a # items'" "x = x'" "w' = w2"
        by simp_all
      from Cons.IH [OF r] obtain ws where
        ws: "length ws = Suc (length items')" "ws ! 0 = ?w1"
          "\<forall>i<length items'. yields E experiment c s dry (rest ! i) (items' ! i) (ws ! i) (ws ! Suc i)"
          "case x' of
             None \<Rightarrow> length items' = length rest \<and> ws ! length items' = w2
           | Some e \<Rightarrow> length items' < length rest
               \<and> raises_at E experiment c s dry (rest ! length items') e (ws ! length items') w2"
        by blast
      have first: "yields E experiment c s dry entry (Pending a) w ?w1"
        using PDict True by (simp add: yields_def)
      have steps: "\<forall>i<length items. yields E experiment c s dry ((entry # rest) ! i) (items ! i)
                       ((w # ws) ! i) ((w # ws) ! Suc i)"
      proof (intro allI impI)
        fix i assume "i < length items"
        then show "yields E experiment c s dry ((entry # rest) ! i) (items ! i)
                       ((w # ws) ! i) ((w # ws) ! Suc i)"
          using first ws(2,3) eq(1) by (cases i) auto
      qed
      have fin: "case x of
          None \<Rightarrow> length items = length (entry # rest) \<and> (w # ws) ! length items = w'
        | Some e \<Rightarrow> length items < length (entry # rest)
            \<and> raises_at E experiment c s dry ((entry # rest) ! length items) e
                 ((w # ws) ! length items) w'"
        using ws(4) eq by (cases x') auto
      show ?thesis
        using steps fin ws(1) eq(1) by (intro exI [of _ "w # ws"]) simp
    next
      case False
      obtain res w1 where ex: "execute_activity E experiment a c s dry w = (res, w1)"
        by (cases "execute_activity E experiment a c s dry w")
      show ?thesis
      proof (cases res)
        case (Inl e)
        with Cons.prems PDict False ex have eq: "items = []" "x = Some e" "w' = w1" by simp_all
        have "raises_at E experiment c s dry entry e w w1"
          using PDict False ex Inl by (simp add: raises_at_def)
        then show ?thesis using eq by (intro exI [of _ "[w]"]) simp
      next
        case (Inr run)
        obtain items' x' w2 where
          r: "run_activities_loop E experiment c s dry rest w1 = ((items', x'), w2)"
          by (cases "run_activities_loop E experiment c s dry rest w1") auto
        with Cons.prems PDict False ex Inr
        have eq: "items = Completed run # items'" "x = x'" "w' = w2" by simp_all
        from Cons.IH [OF r] obtain ws where
          ws: "length ws = Suc (length items')" "ws ! 0 = w1"
            "\<forall>i<length items'. yields E experiment c s dry (rest ! i) (items' ! i) (ws ! i) (ws ! Suc i)"
            "case x' of
               None \<Rightarrow> length items' = length rest \<and> ws ! length items' = w2
             | Some e \<Rightarrow> length items' < length rest
                 \<and> raises_at E experiment c s dry (rest ! length items') e (ws ! length items') w2"
          by blast
        have first: "yields E experiment c s dry entry (Completed run) w w1"
          using PDict False ex Inr by (simp add: yields_def)
        have steps: "\<forall>i<length items. yields E experiment c s dry ((entry # rest) ! i) (items ! i)
                         ((w # ws) ! i) ((w # ws) ! Suc i)"
        proof (intro allI impI)
          fix i assume "i < length items"
          then show "yields E experiment c s dry ((entry # rest) ! i) (items ! i)
                         ((w # ws) ! i) ((w # ws) ! Suc i)"
            using first ws(2,3) eq(1) by (cases i) auto
        qed
        have fin: "case x of
            None \<Rightarrow> length items = length (entry # rest) \<and> (w # ws) ! length items = w'
          | Some e \<Rightarrow> length items < length (entry # rest)
              \<and> raises_at E experiment c s dry ((entry # rest) ! length items) e
                   ((w # ws) ! length items) w'"
          using ws(4) eq by (cases x') auto
        show ?thesis
          using steps fin ws(1) eq(1) by (intro exI [of _ "w # ws"]) simp
      qed
    qed
  next
    case PNone
    with Cons.prems have eq: "items = []" "x = Some AttributeError" "w' = w" by simp_all
    then show ?thesis using PNone by (intro exI [of _ "[w]"]) (simp add: raises_at_def)
  next
    case (PBool b)
    with Cons.prems have eq: "items = []" "x = Some AttributeError" "w' = w" by simp_all
    then show ?thesis using PBool by (intro exI [of _ "[w]"]) (simp add: raises_at_def)
  next
    case (PInt n)
    with Cons.prems have eq: "items = []" "x = Some AttributeError" "w' = w" by simp_all
    then show ?thesis using PInt by (intro exI [of _ "[w]"]) (simp add: raises_at_def)
  next
    case (PFloat f)
    with Cons.prems have eq: "items = []" "x = Some AttributeError" "w' = w" by simp_all
    then show ?thesis using PFloat by (intro exI [of _ "[w]"]) (simp add: raises_at_def)
  next
    case (PStr t)
    with Cons.prems have eq: "items = []" "x = Some AttributeError" "w' = w" by simp_all
    then show ?thesis using PStr by (intro exI [of _ "[w]"]) (simp add: raises_at_def)
  next
    case (PList l)
    with Cons.prems have eq: "items = []" "x = Some AttributeError" "w' = w" by simp_all
    then show ?thesis using PList by (intro exI [of _ "[w]"]) (simp add: raises_at_def)
  qed
qed

text \<open>
  C7, as the code has it. \<^verbatim>\<open>run_activities\<close>, consumed to its end, yields its items in
  the order of the method, each by one step as above on the world the step before left
  (an entry in the background is submitted and its future yielded, any other entry is
  executed and its run yielded). When nothing raises there is one item for every entry.
  When the execution of a foreground entry raises, the iteration ends there with that
  exception, one item having been yielded for each earlier entry.
\<close>

theorem run_activities_in_order:
  assumes "py_iter (dict_get experiment ''method'') = Inr acts"
      and "run_activities E experiment c s dry w = ((items, x), w')"
  shows "\<exists>ws. length ws = Suc (length items) \<and> ws ! 0 = w
     \<and> (\<forall>i<length items. yields E experiment c s dry (acts ! i) (items ! i) (ws ! i) (ws ! Suc i))
     \<and> (case x of
          None \<Rightarrow> length items = length acts \<and> ws ! length items = w'
        | Some e \<Rightarrow> length items < length acts
            \<and> raises_at E experiment c s dry (acts ! length items) e (ws ! length items) w')"
proof -
  from assms have "run_activities_loop E experiment c s dry acts w = ((items, x), w')"
    by (simp add: run_activities_def)
  then show ?thesis by (rule loop_in_order)
qed

theorem run_activities_in_order_witness:
  "py_iter (dict_get background_experiment ''method'')
      = Inr [PDict python_action, PDict background_action]
   \<and> (\<exists>items w'. run_activities (quiet_env steady_runner) background_experiment PNone PNone
                     False idle = ((items, None), w')
         \<and> length items = 2)"
proof -
  have m: "py_iter (dict_get background_experiment ''method'')
      = Inr [PDict python_action, PDict background_action]"
    by (simp add: background_experiment_def dict_get_def)
  obtain items w' where
    r: "run_activities (quiet_env steady_runner) background_experiment PNone PNone False idle
          = ((items, None), w')"
    by (simp add: run_activities_def background_experiment_def background_action_def
          steady_runner_def execution_defs)
  from run_activities_in_order [OF m r] have "length items = 2" by auto
  with m r show ?thesis by blast
qed

text \<open>
  C7, as the specification words it, fails: of the two entries of the method below, the
  second is a reference to an activity that does not exist; its execution raises
  \<^verbatim>\<open>ActivityFailed\<close>, which ends the generator after one item.
\<close>

theorem run_activities_ends_at_missing_reference:
  "py_iter (dict_get missing_ref_experiment ''method'')
      = Inr [PDict python_probe, PDict [(''ref'', PStr ''nope'')]]
   \<and> length (fst (fst (run_activities (quiet_env steady_runner) missing_ref_experiment
                          PNone PNone False idle))) = 1
   \<and> snd (fst (run_activities (quiet_env steady_runner) missing_ref_experiment
                  PNone PNone False idle))
       = Some (ActivityFailed (Fmt missing_ref_template (PStr ''nope'')))"
  by (simp add: run_activities_def missing_ref_experiment_def python_probe_def
        steady_runner_def lookup_activity_def get_all_activities_in_experiment_def
        execution_defs)

section \<open>The orchestrator: lemmas\<close>


















section \<open>A reference that does not resolve: properties\<close>




section \<open>Interruption: properties\<close>











section \<open>The registry: properties\<close>




































end
